theory Spec2Isabelle
  imports Main
begin

section \<open>Go errors\<close>

text \<open>
  A Go \<^verbatim>\<open>error\<close> value is either a plain message (\<^verbatim>\<open>fmt.Errorf\<close>, an operating
  system error), an error that implements \<^verbatim>\<open>smithy.APIError\<close> (it carries an error
  code and a message), or an error that wraps another one (\<^verbatim>\<open>errors.Wrap(err, msg)\<close>,
  and the operation and response errors the AWS SDK puts around what the service
  answered). The nil error is \<open>None\<close> of \<open>go_error option\<close>.
\<close>

datatype go_error =
    Errorf string
  | APIError string string
  | Wrap go_error string

text \<open>
  \<^verbatim>\<open>errors.As(err, &apiError)\<close> walks the chain of wrapped errors and stops at the
  first one that is an \<^verbatim>\<open>APIError\<close>; on the nil error it reports false.
\<close>

fun as_APIError :: "go_error \<Rightarrow> (string \<times> string) option" where
  "as_APIError (Errorf m) = None"
| "as_APIError (APIError code m) = Some (code, m)"
| "as_APIError (Wrap e m) = as_APIError e"

definition errors_As :: "go_error option \<Rightarrow> (string \<times> string) option" where
  "errors_As err = (case err of None \<Rightarrow> None | Some e \<Rightarrow> as_APIError e)"

text \<open>\<^verbatim>\<open>errors.Wrap(err, msg)\<close> of \<^verbatim>\<open>github.com/pkg/errors\<close>: nil stays nil.\<close>

definition errors_Wrap :: "go_error option \<Rightarrow> string \<Rightarrow> go_error option" where
  "errors_Wrap err msg = (case err of None \<Rightarrow> None | Some e \<Rightarrow> Some (Wrap e msg))"

section \<open>The credential document\<close>

text \<open>
  Modelled from the spec: package \<^verbatim>\<open>pkg/docker\<close> (the type \<^verbatim>\<open>docker.Config\<close> with
  \<^verbatim>\<open>NewConfig\<close>, \<^verbatim>\<open>SetAuth\<close> and \<^verbatim>\<open>SetCredHelper\<close>) is not among the sources. The
  specification describes the credential config as a mapping from registry host to a
  credential descriptor, a descriptor being either a static username and password or a
  named external credential helper, with at most one descriptor per host and later
  writes overwriting earlier ones for the same host.
\<close>

datatype descriptor =
    Static string string
  | Helper string

type_synonym config = "string \<rightharpoonup> descriptor"

text \<open>
  Modelled from the spec: \<^verbatim>\<open>docker.NewConfig\<close> (package \<^verbatim>\<open>pkg/docker\<close>, not among the
  sources); a config is constructed fresh, without any binding.
\<close>

definition NewConfig :: config where
  "NewConfig = Map.empty"

text \<open>
  Modelled from the spec: \<^verbatim>\<open>Config.SetAuth\<close> (package \<^verbatim>\<open>pkg/docker\<close>, not among the
  sources); it binds the username with its password to the registry entry, overwriting
  an earlier descriptor of that host.
\<close>

definition SetAuth :: "string \<Rightarrow> string \<Rightarrow> string \<Rightarrow> config \<Rightarrow> config" where
  "SetAuth registry username password c = c(registry \<mapsto> Static username password)"

text \<open>
  Modelled from the spec: \<^verbatim>\<open>Config.SetCredHelper\<close> (package \<^verbatim>\<open>pkg/docker\<close>, not among
  the sources); it binds the registry host to the named external credential helper,
  overwriting an earlier descriptor of that host.
\<close>

definition SetCredHelper :: "string \<Rightarrow> string \<Rightarrow> config \<Rightarrow> config" where
  "SetCredHelper registry helper c = c(registry \<mapsto> Helper helper)"

section \<open>The build job descriptor\<close>

text \<open>
  The literal \<^verbatim>\<open>kaniko.Plugin{Build: kaniko.Build{...}, Artifact: kaniko.Artifact{...}}\<close>
  that both plugins construct. The fields of \<^verbatim>\<open>Artifact\<close> carry the prefix
  \<open>Artifact\<close> where \<^verbatim>\<open>Build\<close> has a field of the same name.
\<close>

datatype registry_type = ECR | GCR

record Build =
  DroneCommitRef :: string
  DroneRepoBranch :: string
  Dockerfile :: string
  Context :: string
  Tags :: "string list"
  AutoTag :: bool
  AutoTagSuffix :: string
  ExpandTag :: bool
  Args :: "string list"
  Target :: string
  Repo :: string
  Mirrors :: "string list"
  Labels :: "string list"
  SnapshotMode :: string
  EnableCache :: bool
  CacheDir :: string
  CacheCopyLayers :: bool
  CacheNoCompress :: bool
  CacheRepo :: string
  CacheTTL :: int
  DigestFile :: string
  NoPush :: bool
  Verbosity :: string
  UseNewRun :: bool
  Platform :: string

record Artifact =
  ArtifactTags :: "string list"
  ArtifactRepo :: string
  ArtifactRegistry :: string
  ArtifactFile :: string
  RegistryType :: registry_type

record Plugin =
  PluginBuild :: Build
  PluginArtifact :: Artifact

section \<open>The world outside the process\<close>

text \<open>
  The two API families of the registry service, and the operations the plugin calls:
  \<^verbatim>\<open>CreateRepository\<close> with the repository name, \<^verbatim>\<open>PutLifecyclePolicy\<close> and
  \<^verbatim>\<open>SetRepositoryPolicy\<close> with the repository name and the policy text.
\<close>

datatype family = Public | Private

datatype api_call =
    CreateRepository family string
  | PutLifecyclePolicy family string string
  | SetRepositoryPolicy family string string

text \<open>
  Every interaction of the process with its surroundings is recorded, in order, in a
  trace: setting an environment variable, writing and reading a file, loading the AWS
  configuration for a region, a call of the registry service, and the call of
  \<^verbatim>\<open>plugin.Exec()\<close>, which runs the build executor.
\<close>

datatype event =
    SetenvCall string string
  | WriteFileCall string string
  | ReadFileCall string
  | LoadDefaultConfigCall string
  | Api api_call
  | Exec Plugin

record world =
  files :: "string \<rightharpoonup> string"
  environ :: "string \<rightharpoonup> string"
  trace :: "event list"

text \<open>
  What the surroundings answer is a parameter of the model: whether setting a variable
  or writing a file fails, what \<^verbatim>\<open>json.Marshal\<close> makes of a config, whether the AWS
  configuration loads, what the registry service answers to a call (it may depend on
  everything that happened before), and what the build executor returns.
  \<open>RegistryV1\<close> is the constant \<^verbatim>\<open>docker.RegistryV1\<close> of the package that is not
  among the sources (the default registry of the specification).
\<close>

record externals =
  RegistryV1 :: string
  setenv_error :: "string \<Rightarrow> string \<Rightarrow> go_error option"
  writefile_error :: "string \<Rightarrow> go_error option"
  json_Marshal :: "config \<Rightarrow> go_error + string"
  load_config_error :: "string \<Rightarrow> go_error option"
  backend :: "event list \<Rightarrow> api_call \<Rightarrow> go_error option"
  exec_result :: "Plugin \<Rightarrow> go_error option"

definition record_event :: "event \<Rightarrow> world \<Rightarrow> world" where
  "record_event e w = w\<lparr>trace := trace w @ [e]\<rparr>"

definition os_Setenv :: "externals \<Rightarrow> string \<Rightarrow> string \<Rightarrow> world \<Rightarrow> go_error option \<times> world" where
  "os_Setenv x key val w =
     (case setenv_error x key val of
        Some err \<Rightarrow> (Some err, record_event (SetenvCall key val) w)
      | None \<Rightarrow> (None, record_event (SetenvCall key val) (w\<lparr>environ := (environ w)(key \<mapsto> val)\<rparr>)))"

definition ioutil_WriteFile :: "externals \<Rightarrow> string \<Rightarrow> string \<Rightarrow> world \<Rightarrow> go_error option \<times> world" where
  "ioutil_WriteFile x path content w =
     (case writefile_error x path of
        Some err \<Rightarrow> (Some err, record_event (WriteFileCall path content) w)
      | None \<Rightarrow> (None, record_event (WriteFileCall path content) (w\<lparr>files := (files w)(path \<mapsto> content)\<rparr>)))"

definition ioutil_ReadFile :: "string \<Rightarrow> world \<Rightarrow> (go_error + string) \<times> world" where
  "ioutil_ReadFile path w =
     (case files w path of
        None \<Rightarrow> (Inl (Errorf (''open '' @ path @ '': no such file or directory'')),
                 record_event (ReadFileCall path) w)
      | Some content \<Rightarrow> (Inr content, record_event (ReadFileCall path) w))"

definition config_LoadDefaultConfig :: "externals \<Rightarrow> string \<Rightarrow> world \<Rightarrow> go_error option \<times> world" where
  "config_LoadDefaultConfig x region w =
     (load_config_error x region, record_event (LoadDefaultConfigCall region) w)"

definition svc :: "externals \<Rightarrow> api_call \<Rightarrow> world \<Rightarrow> go_error option \<times> world" where
  "svc x call w = (backend x (trace w) call, record_event (Api call) w)"

definition plugin_Exec :: "externals \<Rightarrow> Plugin \<Rightarrow> world \<Rightarrow> go_error option \<times> world" where
  "plugin_Exec x p w = (exec_result x p, record_event (Exec p) w)"

section \<open>The parsed command line\<close>

text \<open>
  \<^verbatim>\<open>cli.Context\<close>: the lookups \<^verbatim>\<open>c.String\<close>, \<^verbatim>\<open>c.Bool\<close>, \<^verbatim>\<open>c.StringSlice\<close>,
  \<^verbatim>\<open>c.Int\<close> and \<^verbatim>\<open>c.IsSet\<close> by flag name.
\<close>

record cli_Context =
  c_String :: "string \<Rightarrow> string"
  c_Bool :: "string \<Rightarrow> bool"
  c_StringSlice :: "string \<Rightarrow> string list"
  c_Int :: "string \<Rightarrow> int"
  c_IsSet :: "string \<Rightarrow> bool"

text \<open>
  What \<^verbatim>\<open>logrus.Fatal\<close> is given before it ends the process with code 1: an error
  (\<^verbatim>\<open>logrus.Fatal(err)\<close>), or a text followed by an error as \<^verbatim>\<open>%v\<close> prints it
  (\<^verbatim>\<open>logrus.Fatal(fmt.Sprintf("...: %v", err))\<close>). The text that an error prints is
  the business of the libraries that made it and is not modelled.
\<close>

datatype fatal =
    FatalError go_error
  | FatalMessage string go_error

text \<open>
  A function that can end the process through \<^verbatim>\<open>logrus.Fatal\<close> either returns its error
  value or never returns.
\<close>

datatype outcome =
    Return "go_error option"
  | Fatal fatal

section \<open>The ECR plugin\<close>

definition accessKeyEnv :: string where
  "accessKeyEnv = ''AWS_ACCESS_KEY_ID''"

definition secretKeyEnv :: string where
  "secretKeyEnv = ''AWS_SECRET_ACCESS_KEY''"

definition dockerConfigPath :: string where
  "dockerConfigPath = ''/kaniko/.docker/config.json''"

definition ecrPublicDomain :: string where
  "ecrPublicDomain = ''public.ecr.aws''"

definition defaultDigestFile :: string where
  "defaultDigestFile = ''/kaniko/digest-file''"

text \<open>\<^verbatim>\<open>strings.HasPrefix(s, prefix)\<close> of the Go library.\<close>

definition strings_HasPrefix :: "string \<Rightarrow> string \<Rightarrow> bool" where
  "strings_HasPrefix s pre = (length s \<ge> length pre \<and> take (length pre) s = pre)"

definition isRegistryPublic :: "string \<Rightarrow> bool" where
  "isRegistryPublic registry = strings_HasPrefix registry ecrPublicDomain"

definition createDockerConfig ::
  "externals \<Rightarrow> string \<Rightarrow> string \<Rightarrow> string \<Rightarrow> string \<Rightarrow> string \<Rightarrow> bool \<Rightarrow> world
     \<Rightarrow> (go_error + config) \<times> world" where
  "createDockerConfig x dockerUsername dockerPassword accessKey secretKey registry noPush w =
     (let dockerConfig =
            (if dockerUsername \<noteq> '''' then SetAuth (RegistryV1 x) dockerUsername dockerPassword NewConfig
             else NewConfig)
      in if \<not> noPush \<or> accessKey \<noteq> '''' then
           if registry = '''' then (Inl (Errorf ''registry must be specified''), w)
           else
             (case (if accessKey \<noteq> '''' \<and> secretKey \<noteq> '''' then
                      (case os_Setenv x accessKeyEnv accessKey w of
                         (Some err, w1) \<Rightarrow>
                           (Some (Wrap err (''failed to set '' @ accessKeyEnv @ '' environment variable'')), w1)
                       | (None, w1) \<Rightarrow>
                           (case os_Setenv x secretKeyEnv secretKey w1 of
                              (Some err, w2) \<Rightarrow>
                                (Some (Wrap err (''failed to set '' @ secretKeyEnv @ '' environment variable'')), w2)
                            | (None, w2) \<Rightarrow> (None, w2)))
                    else (None, w)) of
                (Some err, w') \<Rightarrow> (Inl err, w')
              | (None, w') \<Rightarrow>
                  (Inr (SetCredHelper registry ''ecr-login''
                          (SetCredHelper ecrPublicDomain ''ecr-login'' dockerConfig)), w'))
         else (Inr dockerConfig, w))"

definition createRepository ::
  "externals \<Rightarrow> string \<Rightarrow> string \<Rightarrow> string \<Rightarrow> world \<Rightarrow> go_error option \<times> world" where
  "createRepository x region repo registry w =
     (if registry = '''' then (Some (Errorf ''registry must be specified''), w)
      else if repo = '''' then (Some (Errorf ''repo must be specified''), w)
      else
        (case config_LoadDefaultConfig x region w of
           (Some err, w1) \<Rightarrow> (Some (Wrap err ''failed to load aws config''), w1)
         | (None, w1) \<Rightarrow>
             (case (if isRegistryPublic registry then svc x (CreateRepository Public repo) w1
                    else svc x (CreateRepository Private repo) w1) of
                (createErr, w2) \<Rightarrow>
                  (case errors_As createErr of
                     Some (code, msg) \<Rightarrow>
                       if code \<noteq> ''RepositoryAlreadyExistsException''
                       then (errors_Wrap createErr ''failed to create repository'', w2)
                       else (None, w2)
                   | None \<Rightarrow> (None, w2)))))"

definition uploadLifeCyclePolicy ::
  "externals \<Rightarrow> string \<Rightarrow> string \<Rightarrow> string \<Rightarrow> world \<Rightarrow> go_error option \<times> world" where
  "uploadLifeCyclePolicy x region repo lifecyclePolicy w =
     (case config_LoadDefaultConfig x region w of
        (Some err, w1) \<Rightarrow> (Some (Wrap err ''failed to load aws config''), w1)
      | (None, w1) \<Rightarrow> svc x (PutLifecyclePolicy Private repo lifecyclePolicy) w1)"

definition uploadRepositoryPolicy ::
  "externals \<Rightarrow> string \<Rightarrow> string \<Rightarrow> string \<Rightarrow> string \<Rightarrow> world \<Rightarrow> go_error option \<times> world" where
  "uploadRepositoryPolicy x region repo registry repositoryPolicy w =
     (case config_LoadDefaultConfig x region w of
        (Some err, w1) \<Rightarrow> (Some (Wrap err ''failed to load aws config''), w1)
      | (None, w1) \<Rightarrow>
          (if isRegistryPublic registry then svc x (SetRepositoryPolicy Public repo repositoryPolicy) w1
           else svc x (SetRepositoryPolicy Private repo repositoryPolicy) w1))"

text \<open>
  The plugin value built at the end of \<^verbatim>\<open>run\<close>; \<^verbatim>\<open>fmt.Sprintf("%s/%s", a, b)\<close> is
  \<open>a @ ''/'' @ b\<close>.
\<close>

definition ecr_plugin :: "cli_Context \<Rightarrow> Plugin" where
  "ecr_plugin c =
     \<lparr> PluginBuild =
         \<lparr> DroneCommitRef = c_String c ''drone-commit-ref'',
           DroneRepoBranch = c_String c ''drone-repo-branch'',
           Dockerfile = c_String c ''dockerfile'',
           Context = c_String c ''context'',
           Tags = c_StringSlice c ''tags'',
           AutoTag = c_Bool c ''auto-tag'',
           AutoTagSuffix = c_String c ''auto-tag-suffix'',
           ExpandTag = c_Bool c ''expand-tag'',
           Args = c_StringSlice c ''args'',
           Target = c_String c ''target'',
           Repo = c_String c ''registry'' @ ''/'' @ c_String c ''repo'',
           Mirrors = c_StringSlice c ''registry-mirrors'',
           Labels = c_StringSlice c ''custom-labels'',
           SnapshotMode = c_String c ''snapshot-mode'',
           EnableCache = c_Bool c ''enable-cache'',
           CacheDir = c_String c ''cache-dir'',
           CacheCopyLayers = c_Bool c ''cache-copy-layers'',
           CacheNoCompress = c_Bool c ''cache-no-compress'',
           CacheRepo = c_String c ''registry'' @ ''/'' @ c_String c ''cache-repo'',
           CacheTTL = c_Int c ''cache-ttl'',
           DigestFile = defaultDigestFile,
           NoPush = c_Bool c ''no-push'',
           Verbosity = c_String c ''verbosity'',
           UseNewRun = c_Bool c ''use-new-run'',
           Platform = c_String c ''platform'' \<rparr>,
       PluginArtifact =
         \<lparr> ArtifactTags = c_StringSlice c ''tags'',
           ArtifactRepo = c_String c ''repo'',
           ArtifactRegistry = c_String c ''registry'',
           ArtifactFile = c_String c ''artifact-file'',
           RegistryType = ECR \<rparr> \<rparr>"

definition run :: "externals \<Rightarrow> cli_Context \<Rightarrow> world \<Rightarrow> outcome \<times> world" where
  "run x c w =
     (let repo = c_String c ''repo'';
          registry = c_String c ''registry'';
          region = c_String c ''region'';
          noPush = c_Bool c ''no-push''
      in case createDockerConfig x (c_String c ''docker-username'') (c_String c ''docker-password'')
                (c_String c ''access-key'') (c_String c ''secret-key'') registry noPush w of
           (Inl err, w1) \<Rightarrow> (Return (Some err), w1)
         | (Inr dockerConfig, w1) \<Rightarrow>
        (case json_Marshal x dockerConfig of
           Inl err \<Rightarrow> (Return (Some err), w1)
         | Inr jsonBytes \<Rightarrow>
        (case ioutil_WriteFile x dockerConfigPath jsonBytes w1 of
           (Some err, w2) \<Rightarrow> (Return (Some err), w2)
         | (None, w2) \<Rightarrow>
        (case (if \<not> noPush \<and> c_Bool c ''create-repository''
               then createRepository x region repo registry w2 else (None, w2)) of
           (Some err, w3) \<Rightarrow> (Return (Some err), w3)
         | (None, w3) \<Rightarrow>
        (case (if c_IsSet c ''lifecycle-policy'' then
                 (case ioutil_ReadFile (c_String c ''lifecycle-policy'') w3 of
                    (Inl err, w') \<Rightarrow> (Some (FatalError err), w')
                  | (Inr contents, w') \<Rightarrow>
                      (case uploadLifeCyclePolicy x region repo contents w' of
                         (Some err, w'') \<Rightarrow>
                           (Some (FatalMessage ''error uploading ECR lifecycle policy: '' err), w'')
                       | (None, w'') \<Rightarrow> (None, w'')))
               else (None, w3)) of
           (Some fatal, w4) \<Rightarrow> (Fatal fatal, w4)
         | (None, w4) \<Rightarrow>
        (case (if c_IsSet c ''repository-policy'' then
                 (case ioutil_ReadFile (c_String c ''repository-policy'') w4 of
                    (Inl err, w') \<Rightarrow> (Some (FatalError err), w')
                  | (Inr contents, w') \<Rightarrow>
                      (case uploadRepositoryPolicy x region repo registry contents w' of
                         (Some err, w'') \<Rightarrow>
                           (Some (FatalMessage ''error uploading ECR lifecycle policy: '' err), w'')
                       | (None, w'') \<Rightarrow> (None, w'')))
               else (None, w4)) of
           (Some fatal, w5) \<Rightarrow> (Fatal fatal, w5)
         | (None, w5) \<Rightarrow>
        (case plugin_Exec x (ecr_plugin c) w5 of (err, w6) \<Rightarrow> (Return err, w6))))))))"

text \<open>
  \<^verbatim>\<open>main\<close> of both plugins ends with
  \<^verbatim>\<open>if err := app.Run(os.Args); err != nil { logrus.Fatal(err) }\<close>: the process exits with
  code 0 when \<^verbatim>\<open>run\<close> returns nil, and with code 1 when it returns an error or when
  \<^verbatim>\<open>logrus.Fatal\<close> ended it before.
\<close>

definition exit_code :: "outcome \<Rightarrow> int" where
  "exit_code out = (case out of Return None \<Rightarrow> 0 | Return (Some err) \<Rightarrow> 1 | Fatal msg \<Rightarrow> 1)"

section \<open>The GCR plugin\<close>

definition gcrKeyPath :: string where
  "gcrKeyPath = ''/kaniko/config.json''"

definition gcrEnvVariable :: string where
  "gcrEnvVariable = ''GOOGLE_APPLICATION_CREDENTIALS''"

definition setupGCRAuth :: "externals \<Rightarrow> string \<Rightarrow> world \<Rightarrow> go_error option \<times> world" where
  "setupGCRAuth x jsonKey w =
     (case ioutil_WriteFile x gcrKeyPath jsonKey w of
        (Some err, w1) \<Rightarrow> (Some (Wrap err ''failed to write GCR JSON key''), w1)
      | (None, w1) \<Rightarrow>
          (case os_Setenv x gcrEnvVariable gcrKeyPath w1 of
             (Some err, w2) \<Rightarrow>
               (Some (Wrap err (''failed to set '' @ gcrEnvVariable @ '' environment variable'')), w2)
           | (None, w2) \<Rightarrow> (None, w2)))"

definition gcr_plugin :: "cli_Context \<Rightarrow> Plugin" where
  "gcr_plugin c =
     \<lparr> PluginBuild =
         \<lparr> DroneCommitRef = c_String c ''drone-commit-ref'',
           DroneRepoBranch = c_String c ''drone-repo-branch'',
           Dockerfile = c_String c ''dockerfile'',
           Context = c_String c ''context'',
           Tags = c_StringSlice c ''tags'',
           AutoTag = c_Bool c ''auto-tag'',
           AutoTagSuffix = c_String c ''auto-tag-suffix'',
           ExpandTag = c_Bool c ''expand-tag'',
           Args = c_StringSlice c ''args'',
           Target = c_String c ''target'',
           Repo = c_String c ''registry'' @ ''/'' @ c_String c ''repo'',
           Mirrors = c_StringSlice c ''registry-mirrors'',
           Labels = c_StringSlice c ''custom-labels'',
           SnapshotMode = c_String c ''snapshot-mode'',
           EnableCache = c_Bool c ''enable-cache'',
           CacheDir = c_String c ''cache-dir'',
           CacheCopyLayers = c_Bool c ''cache-copy-layers'',
           CacheNoCompress = c_Bool c ''cache-no-compress'',
           CacheRepo = c_String c ''registry'' @ ''/'' @ c_String c ''cache-repo'',
           CacheTTL = c_Int c ''cache-ttl'',
           DigestFile = defaultDigestFile,
           NoPush = c_Bool c ''no-push'',
           Verbosity = c_String c ''verbosity'',
           UseNewRun = c_Bool c ''use-new-run'',
           Platform = c_String c ''platform'' \<rparr>,
       PluginArtifact =
         \<lparr> ArtifactTags = c_StringSlice c ''tags'',
           ArtifactRepo = c_String c ''repo'',
           ArtifactRegistry = c_String c ''registry'',
           ArtifactFile = c_String c ''artifact-file'',
           RegistryType = GCR \<rparr> \<rparr>"

text \<open>\<^verbatim>\<open>run\<close> of \<^verbatim>\<open>cmd/kaniko-gcr/main.go\<close>.\<close>

definition gcr_run :: "externals \<Rightarrow> cli_Context \<Rightarrow> world \<Rightarrow> outcome \<times> world" where
  "gcr_run x c w =
     (let jsonKey = c_String c ''json-key''
      in case (if jsonKey \<noteq> '''' then setupGCRAuth x jsonKey w else (None, w)) of
           (Some err, w1) \<Rightarrow> (Return (Some err), w1)
         | (None, w1) \<Rightarrow>
             (case plugin_Exec x (gcr_plugin c) w1 of (err, w2) \<Rightarrow> (Return err, w2)))"

section \<open>Notions used in the statements\<close>

text \<open>
  The answer of the registry service to the create call that \<open>createRepository\<close> makes
  when it is started in world \<open>w\<close> and the AWS configuration loads.
\<close>

definition create_answer :: "externals \<Rightarrow> string \<Rightarrow> string \<Rightarrow> string \<Rightarrow> world \<Rightarrow> go_error option" where
  "create_answer x region repo registry w =
     backend x (trace w @ [LoadDefaultConfigCall region])
       (CreateRepository (if isRegistryPublic registry then Public else Private) repo)"

text \<open>The number of times the build executor was invoked.\<close>

fun is_Exec :: "event \<Rightarrow> bool" where
  "is_Exec (Exec p) = True"
| "is_Exec e = False"

definition executor_calls :: "world \<Rightarrow> nat" where
  "executor_calls w = length (filter is_Exec (trace w))"

text \<open>
  A step from \<open>w\<close> to \<open>w'\<close> is quiet when it leaves the files and the environment as
  they are and does not invoke the build executor.
\<close>

definition quiet :: "world \<Rightarrow> world \<Rightarrow> bool" where
  "quiet w w' \<longleftrightarrow>
     files w' = files w \<and> environ w' = environ w \<and> executor_calls w' = executor_calls w"

text \<open>
  The bootstrap states of the orchestrator as the specification names them, each
  written with the functions of the source: whether the state returned without an error
  (the value that \<open>run\<close> tests before it goes on), and the world it leaves.
  \<open>CredentialSetup\<close> is \<open>createDockerConfig\<close> followed by the serialisation and the
  write of the credential document; \<open>RepositoryEnsure\<close> is \<open>createRepository\<close> under its
  condition; the two policy uploads read the policy file and upload it, each under its
  own condition.
\<close>

definition CredentialSetup :: "externals \<Rightarrow> cli_Context \<Rightarrow> world \<Rightarrow> bool \<times> world" where
  "CredentialSetup x c w =
     (case createDockerConfig x (c_String c ''docker-username'') (c_String c ''docker-password'')
             (c_String c ''access-key'') (c_String c ''secret-key'') (c_String c ''registry'')
             (c_Bool c ''no-push'') w of
        (Inl err, w1) \<Rightarrow> (False, w1)
      | (Inr dockerConfig, w1) \<Rightarrow>
          (case json_Marshal x dockerConfig of
             Inl err \<Rightarrow> (False, w1)
           | Inr jsonBytes \<Rightarrow>
               (case ioutil_WriteFile x dockerConfigPath jsonBytes w1 of
                  (err, w2) \<Rightarrow> (err = None, w2))))"

definition RepositoryEnsure :: "externals \<Rightarrow> cli_Context \<Rightarrow> world \<Rightarrow> bool \<times> world" where
  "RepositoryEnsure x c w =
     (if \<not> c_Bool c ''no-push'' \<and> c_Bool c ''create-repository'' then
        (case createRepository x (c_String c ''region'') (c_String c ''repo'')
                (c_String c ''registry'') w of
           (err, w') \<Rightarrow> (err = None, w'))
      else (True, w))"

definition LifecyclePolicyUpload :: "externals \<Rightarrow> cli_Context \<Rightarrow> world \<Rightarrow> bool \<times> world" where
  "LifecyclePolicyUpload x c w =
     (if c_IsSet c ''lifecycle-policy'' then
        (case ioutil_ReadFile (c_String c ''lifecycle-policy'') w of
           (Inl err, w') \<Rightarrow> (False, w')
         | (Inr contents, w') \<Rightarrow>
             (case uploadLifeCyclePolicy x (c_String c ''region'') (c_String c ''repo'') contents w' of
                (err, w'') \<Rightarrow> (err = None, w'')))
      else (True, w))"

definition RepositoryPolicyUpload :: "externals \<Rightarrow> cli_Context \<Rightarrow> world \<Rightarrow> bool \<times> world" where
  "RepositoryPolicyUpload x c w =
     (if c_IsSet c ''repository-policy'' then
        (case ioutil_ReadFile (c_String c ''repository-policy'') w of
           (Inl err, w') \<Rightarrow> (False, w')
         | (Inr contents, w') \<Rightarrow>
             (case uploadRepositoryPolicy x (c_String c ''region'') (c_String c ''repo'')
                     (c_String c ''registry'') contents w' of
                (err, w'') \<Rightarrow> (err = None, w'')))
      else (True, w))"

text \<open>
  No bootstrap state returned an error. This speaks of what the functions return, not
  of what happened at the registry: \<open>createRepository\<close> returns no error for a create
  call that failed without an API error code, and such a run counts here.
\<close>

definition no_step_returns_error :: "externals \<Rightarrow> cli_Context \<Rightarrow> world \<Rightarrow> bool" where
  "no_step_returns_error x c w =
     (case CredentialSetup x c w of (ok1, w1) \<Rightarrow> ok1 \<and>
     (case RepositoryEnsure x c w1 of (ok2, w2) \<Rightarrow> ok2 \<and>
     (case LifecyclePolicyUpload x c w2 of (ok3, w3) \<Rightarrow> ok3 \<and>
     (case RepositoryPolicyUpload x c w3 of (ok4, w4) \<Rightarrow> ok4))))"

text \<open>
  The config \<open>createDockerConfig\<close> holds before the auth setup: empty, or with the
  static entry of the default registry when a username is given.
\<close>

definition username_config :: "externals \<Rightarrow> string \<Rightarrow> string \<Rightarrow> config" where
  "username_config x u p = (if u \<noteq> [] then SetAuth (RegistryV1 x) u p NewConfig else NewConfig)"

section \<open>Example surroundings and inputs\<close>

text \<open>
  An error as the AWS SDK returns it: the API error of the service inside a response
  error inside an operation error.
\<close>

definition sdk_error :: "string \<Rightarrow> string \<Rightarrow> string \<Rightarrow> go_error" where
  "sdk_error operation code msg =
     Wrap (Wrap (APIError code msg) ''https response error StatusCode: 400'')
          (''operation error ECR: '' @ operation)"

text \<open>
  A registry service that refuses the repository \<open>forbidden\<close>, cannot be reached for the
  repository \<open>unreachable\<close>, answers a create for a repository that was created before
  with the already-exists error, and accepts everything else.
\<close>

definition example_backend :: "event list \<Rightarrow> api_call \<Rightarrow> go_error option" where
  "example_backend t call =
     (case call of
        CreateRepository f r \<Rightarrow>
          if r = ''forbidden'' then
            Some (sdk_error ''CreateRepository'' ''AccessDeniedException'' ''not authorized'')
          else if r = ''unreachable'' then
            Some (Wrap (Errorf ''dial tcp: i/o timeout'') ''operation error ECR: CreateRepository'')
          else if Api (CreateRepository f r) \<in> set t then
            Some (sdk_error ''CreateRepository'' ''RepositoryAlreadyExistsException''
                    ''The repository already exists'')
          else None
      | PutLifecyclePolicy f r p \<Rightarrow> None
      | SetRepositoryPolicy f r p \<Rightarrow> None)"

definition example_marshal :: "config \<Rightarrow> go_error + string" where
  "example_marshal cfg =
     Inr (concat (map (\<lambda>h. case cfg h of
                              None \<Rightarrow> ''''
                            | Some (Static u p) \<Rightarrow> h @ '' auth '' @ u @ '':'' @ p @ ''; ''
                            | Some (Helper n) \<Rightarrow> h @ '' credHelper '' @ n @ ''; '')
                  [''https://index.docker.io/v1/'', ''public.ecr.aws'', ''public.ecr.aws/myorg'',
                   ''123456789012.dkr.ecr.us-east-1.amazonaws.com'']))"

definition example_externals :: externals where
  "example_externals =
     \<lparr> RegistryV1 = ''https://index.docker.io/v1/'',
       setenv_error = (\<lambda>key val. None),
       writefile_error = (\<lambda>path. None),
       json_Marshal = example_marshal,
       load_config_error = (\<lambda>region. None),
       backend = example_backend,
       exec_result = (\<lambda>p. None) \<rparr>"

definition example_world :: world where
  "example_world =
     \<lparr> files = [''/kaniko/.docker/config.json'' \<mapsto> ''previous content'',
                ''lifecycle.json'' \<mapsto> ''lifecycle rules'',
                ''policy.json'' \<mapsto> ''policy statements''],
       environ = Map.empty,
       trace = [] \<rparr>"

text \<open>A parsed command line with the given string flags and the given boolean flags set.\<close>

definition example_context :: "(string \<times> string) list \<Rightarrow> string list \<Rightarrow> cli_Context" where
  "example_context strings bools =
     \<lparr> c_String = (\<lambda>name. case map_of strings name of None \<Rightarrow> '''' | Some v \<Rightarrow> v),
       c_Bool = (\<lambda>name. name \<in> set bools),
       c_StringSlice = (\<lambda>name. if name = ''tags'' then [''latest''] else []),
       c_Int = (\<lambda>name. 0),
       c_IsSet = (\<lambda>name. name \<in> set (map fst strings) \<or> name \<in> set bools) \<rparr>"

definition dry_run_context :: cli_Context where
  "dry_run_context =
     example_context
       [(''registry'', ''public.ecr.aws/myorg''), (''repo'', ''app''), (''region'', ''us-east-1''),
        (''docker-username'', ''octocat''), (''docker-password'', ''hunter2''),
        (''lifecycle-policy'', ''lifecycle.json'')]
       [''no-push'']"

definition push_context :: "string \<Rightarrow> cli_Context" where
  "push_context repo =
     example_context
       [(''registry'', ''123456789012.dkr.ecr.us-east-1.amazonaws.com''), (''repo'', repo),
        (''region'', ''us-east-1''), (''access-key'', ''AKIAEXAMPLE''), (''secret-key'', ''secret''),
        (''repository-policy'', ''policy.json'')]
       [''create-repository'']"

definition no_registry_context :: cli_Context where
  "no_registry_context = example_context [(''repo'', ''app'')] []"

definition gcr_context :: "string \<Rightarrow> cli_Context" where
  "gcr_context jsonKey =
     example_context
       [(''registry'', ''gcr.io''), (''repo'', ''project/app''), (''json-key'', jsonKey)]
       [''no-push'']"

lemmas example_defs =
  example_externals_def example_world_def example_backend_def sdk_error_def example_marshal_def
  example_context_def dry_run_context_def push_context_def no_registry_context_def
  gcr_context_def

lemmas constant_defs =
  accessKeyEnv_def secretKeyEnv_def dockerConfigPath_def ecrPublicDomain_def
  defaultDigestFile_def gcrKeyPath_def gcrEnvVariable_def

lemmas effect_defs =
  os_Setenv_def ioutil_WriteFile_def ioutil_ReadFile_def config_LoadDefaultConfig_def svc_def
  plugin_Exec_def record_event_def

section \<open>Lemmas about the functions\<close>

lemma strings_HasPrefix_iff: "strings_HasPrefix s pre \<longleftrightarrow> (\<exists>rest. s = pre @ rest)"
  unfolding strings_HasPrefix_def
proof
  assume "length pre \<le> length s \<and> take (length pre) s = pre"
  then have "s = pre @ drop (length pre) s"
    by (metis append_take_drop_id)
  then show "\<exists>rest. s = pre @ rest" ..
next
  assume "\<exists>rest. s = pre @ rest"
  then show "length pre \<le> length s \<and> take (length pre) s = pre" by auto
qed

text \<open>What \<open>createRepository\<close> does once its two checks pass and the configuration loads.\<close>

lemma createRepository_result:
  assumes "registry \<noteq> ''''" "repo \<noteq> ''''" "load_config_error x region = None"
  shows "createRepository x region repo registry w =
     (let call = CreateRepository (if isRegistryPublic registry then Public else Private) repo;
          createErr = create_answer x region repo registry w;
          w2 = record_event (Api call) (record_event (LoadDefaultConfigCall region) w)
      in (case errors_As createErr of
            Some (code, msg) \<Rightarrow>
              if code \<noteq> ''RepositoryAlreadyExistsException''
              then (errors_Wrap createErr ''failed to create repository'', w2)
              else (None, w2)
          | None \<Rightarrow> (None, w2)))"
  using assms
  by (simp add: createRepository_def create_answer_def config_LoadDefaultConfig_def svc_def
        record_event_def Let_def)

lemma createRepository_api_error:
  assumes "registry \<noteq> ''''" "repo \<noteq> ''''" "load_config_error x region = None"
    and "create_answer x region repo registry w = Some e"
    and "as_APIError e = Some (code, msg)"
  shows "fst (createRepository x region repo registry w) =
           (if code = ''RepositoryAlreadyExistsException'' then None
            else Some (Wrap e ''failed to create repository''))"
  using assms by (simp add: createRepository_result errors_As_def errors_Wrap_def Let_def)

lemma createDockerConfig_skipped:
  assumes "noPush" "accessKey = ''''"
  shows "createDockerConfig x u p accessKey secretKey registry noPush w =
           (Inr (if u \<noteq> '''' then SetAuth (RegistryV1 x) u p NewConfig else NewConfig), w)"
  using assms by (simp add: createDockerConfig_def)

lemma createDockerConfig_no_registry:
  assumes "\<not> noPush \<or> accessKey \<noteq> ''''" "registry = ''''"
  shows "createDockerConfig x u p accessKey secretKey registry noPush w =
           (Inl (Errorf ''registry must be specified''), w)"
  using assms by (auto simp: createDockerConfig_def)

lemma createDockerConfig_helpers:
  assumes "\<not> noPush \<or> accessKey \<noteq> ''''"
    and "createDockerConfig x u p accessKey secretKey registry noPush w = (Inr cfg, w')"
  shows "cfg ecrPublicDomain = Some (Helper ''ecr-login'') \<and> cfg registry = Some (Helper ''ecr-login'')"
  using assms
  by (auto simp: createDockerConfig_def SetCredHelper_def Let_def
           split: if_splits prod.splits option.splits)

lemma createRepository_failure:
  assumes "registry \<noteq> ''''" "repo \<noteq> ''''" "load_config_error x region = None"
    and "fst (createRepository x region repo registry w) \<noteq> None"
  shows "\<exists>e code msg. create_answer x region repo registry w = Some e
           \<and> as_APIError e = Some (code, msg) \<and> code \<noteq> ''RepositoryAlreadyExistsException''"
proof (cases "create_answer x region repo registry w")
  case None
  with assms show ?thesis
    by (simp add: createRepository_result errors_As_def Let_def)
next
  case (Some e)
  show ?thesis
  proof (cases "as_APIError e")
    case None
    with Some assms show ?thesis
      by (simp add: createRepository_result errors_As_def Let_def)
  next
    case api: (Some cm)
    obtain code msg where cm: "cm = (code, msg)" by (cases cm)
    with Some api assms have "code \<noteq> ''RepositoryAlreadyExistsException''"
      by (auto simp: createRepository_result errors_As_def Let_def split: if_splits)
    with Some api cm show ?thesis by blast
  qed
qed

section \<open>Repository creation\<close>

text \<open>
  Claim C7. \<open>createRepository\<close> fails with a configuration error whenever the repository
  name or the registry host is empty, and it does so before anything else: the world is
  returned as it was, so neither the AWS configuration was loaded nor any call of the
  registry service made.
\<close>

theorem createRepository_requires_names:
  "registry = '''' \<or> repo = '''' \<Longrightarrow>
   createRepository x region repo registry w =
     (Some (Errorf (if registry = '''' then ''registry must be specified''
                    else ''repo must be specified'')), w)"
  by (auto simp: createRepository_def)

theorem createRepository_requires_names_witness:
  "createRepository example_externals ''us-east-1'' '''' ''public.ecr.aws/myorg'' example_world =
     (Some (Errorf ''repo must be specified''), example_world)
   \<and> createRepository example_externals ''us-east-1'' ''app'' '''' example_world =
     (Some (Errorf ''registry must be specified''), example_world)"
  using createRepository_requires_names
          [of "''public.ecr.aws/myorg''" "''''" example_externals "''us-east-1''" example_world]
        createRepository_requires_names
          [of "''''" "''app''" example_externals "''us-east-1''" example_world]
  by simp

text \<open>
  Claim C9. When the create call of the registry service returns an error that is not
  an API error (no error in its chain carries an error code, as for a connection
  failure), \<open>createRepository\<close> returns no error.
\<close>

theorem createRepository_ignores_other_errors:
  assumes "registry \<noteq> ''''" "repo \<noteq> ''''" "load_config_error x region = None"
    and "create_answer x region repo registry w = Some e"
    and "as_APIError e = None"
  shows "fst (createRepository x region repo registry w) = None"
  using assms by (simp add: createRepository_result errors_As_def Let_def)

theorem createRepository_ignores_other_errors_witness:
  "create_answer example_externals ''us-east-1'' ''unreachable''
     ''123456789012.dkr.ecr.us-east-1.amazonaws.com'' example_world =
     Some (Wrap (Errorf ''dial tcp: i/o timeout'') ''operation error ECR: CreateRepository'')
   \<and> fst (createRepository example_externals ''us-east-1'' ''unreachable''
          ''123456789012.dkr.ecr.us-east-1.amazonaws.com'' example_world) = None"
  using createRepository_ignores_other_errors
          [of "''123456789012.dkr.ecr.us-east-1.amazonaws.com''" "''unreachable''"
              example_externals "''us-east-1''" example_world
              "Wrap (Errorf ''dial tcp: i/o timeout'') ''operation error ECR: CreateRepository''"]
  by (simp add: example_defs create_answer_def isRegistryPublic_def strings_HasPrefix_def
        ecrPublicDomain_def)

text \<open>
  Claim C1. Whatever the region, the repository name and the registry host (both
  non-empty, the AWS configuration loading), when the registry service answers the
  create call with an API error, \<open>createRepository\<close> returns no error if the error code
  is \<open>RepositoryAlreadyExistsException\<close> and the answer wrapped as a failure for every
  other code. In particular a second call on the same region, repository and registry,
  made in the world the first call left, returns no error when the service answers that
  the repository already exists; it can only fail when the service answers with an API
  error of another code.
\<close>

theorem createRepository_already_exists:
  assumes "registry \<noteq> ''''" "repo \<noteq> ''''" "load_config_error x region = None"
  shows "(create_answer x region repo registry w = Some e \<and> as_APIError e = Some (code, msg) \<longrightarrow>
            fst (createRepository x region repo registry w) =
              (if code = ''RepositoryAlreadyExistsException'' then None
               else Some (Wrap e ''failed to create repository'')))
       \<and> (create_answer x region repo registry (snd (createRepository x region repo registry w))
              = Some e'
            \<and> as_APIError e' = Some (''RepositoryAlreadyExistsException'', msg') \<longrightarrow>
            fst (createRepository x region repo registry
                   (snd (createRepository x region repo registry w))) = None)
       \<and> (fst (createRepository x region repo registry
                   (snd (createRepository x region repo registry w))) \<noteq> None \<longrightarrow>
            (\<exists>err c m.
                create_answer x region repo registry
                  (snd (createRepository x region repo registry w)) = Some err
                \<and> as_APIError err = Some (c, m) \<and> c \<noteq> ''RepositoryAlreadyExistsException''))"
proof (intro conjI impI)
  assume "create_answer x region repo registry w = Some e \<and> as_APIError e = Some (code, msg)"
  with assms show "fst (createRepository x region repo registry w) =
      (if code = ''RepositoryAlreadyExistsException'' then None
       else Some (Wrap e ''failed to create repository''))"
    by (simp add: createRepository_api_error)
next
  let ?w1 = "snd (createRepository x region repo registry w)"
  assume "create_answer x region repo registry ?w1 = Some e'
            \<and> as_APIError e' = Some (''RepositoryAlreadyExistsException'', msg')"
  with assms show "fst (createRepository x region repo registry ?w1) = None"
    using createRepository_api_error
            [of registry repo x region ?w1 e' "''RepositoryAlreadyExistsException''" msg']
    by simp
next
  let ?w1 = "snd (createRepository x region repo registry w)"
  assume "fst (createRepository x region repo registry ?w1) \<noteq> None"
  with assms show "\<exists>err c m. create_answer x region repo registry ?w1 = Some err
      \<and> as_APIError err = Some (c, m) \<and> c \<noteq> ''RepositoryAlreadyExistsException''"
    by (rule createRepository_failure)
qed

theorem createRepository_already_exists_witness:
  "fst (createRepository example_externals ''us-east-1'' ''forbidden''
          ''123456789012.dkr.ecr.us-east-1.amazonaws.com'' example_world) =
     Some (Wrap (sdk_error ''CreateRepository'' ''AccessDeniedException'' ''not authorized'')
             ''failed to create repository'')
   \<and> create_answer example_externals ''us-east-1'' ''app''
        ''123456789012.dkr.ecr.us-east-1.amazonaws.com''
        (snd (createRepository example_externals ''us-east-1'' ''app''
                ''123456789012.dkr.ecr.us-east-1.amazonaws.com'' example_world)) =
      Some (sdk_error ''CreateRepository'' ''RepositoryAlreadyExistsException''
              ''The repository already exists'')
   \<and> fst (createRepository example_externals ''us-east-1'' ''app''
          ''123456789012.dkr.ecr.us-east-1.amazonaws.com''
          (snd (createRepository example_externals ''us-east-1'' ''app''
                  ''123456789012.dkr.ecr.us-east-1.amazonaws.com'' example_world))) = None"
  using createRepository_already_exists
          [of "''123456789012.dkr.ecr.us-east-1.amazonaws.com''" "''forbidden''"
              example_externals "''us-east-1''" example_world
              "sdk_error ''CreateRepository'' ''AccessDeniedException'' ''not authorized''"
              "''AccessDeniedException''" "''not authorized''"]
        createRepository_already_exists
          [of "''123456789012.dkr.ecr.us-east-1.amazonaws.com''" "''app''"
              example_externals "''us-east-1''" example_world _ _ _
              "sdk_error ''CreateRepository'' ''RepositoryAlreadyExistsException''
                 ''The repository already exists''"
              "''The repository already exists''"]
  by (simp add: example_defs create_answer_def createRepository_def effect_defs errors_As_def
        isRegistryPublic_def strings_HasPrefix_def ecrPublicDomain_def)

section \<open>Registry classification\<close>

text \<open>
  Claim C4. A registry host is classified as public exactly when it is the public
  registry domain \<open>public.ecr.aws\<close> followed by anything (possibly nothing); every other
  host is private. \<open>createRepository\<close> sends its create call to the API family of that
  classification, so for the registry \<open>public.ecr.aws/myorg\<close> the call goes to the
  public family.
\<close>

theorem isRegistryPublic_routing:
  "(isRegistryPublic registry \<longleftrightarrow> (\<exists>rest. registry = ''public.ecr.aws'' @ rest))
   \<and> (registry \<noteq> '''' \<and> repo \<noteq> '''' \<and> load_config_error x region = None \<longrightarrow>
        trace (snd (createRepository x region repo registry w)) =
          trace w @ [LoadDefaultConfigCall region,
                     Api (CreateRepository (if isRegistryPublic registry then Public else Private) repo)])
   \<and> (load_config_error x region = None \<longrightarrow>
        trace (snd (createRepository x region ''app'' ''public.ecr.aws/myorg'' w)) =
          trace w @ [LoadDefaultConfigCall region, Api (CreateRepository Public ''app'')])"
proof -
  have a: "isRegistryPublic registry \<longleftrightarrow> (\<exists>rest. registry = ''public.ecr.aws'' @ rest)"
    by (simp only: isRegistryPublic_def strings_HasPrefix_iff ecrPublicDomain_def)
  have b: "trace (snd (createRepository x region repo' registry' w)) =
          trace w @ [LoadDefaultConfigCall region,
                     Api (CreateRepository (if isRegistryPublic registry' then Public else Private) repo')]"
    if "registry' \<noteq> ''''" "repo' \<noteq> ''''" "load_config_error x region = None" for repo' registry'
    using that
    by (simp add: createRepository_result Let_def record_event_def split: option.splits)
  have c: "isRegistryPublic ''public.ecr.aws/myorg''"
    by (simp add: isRegistryPublic_def strings_HasPrefix_def ecrPublicDomain_def)
  have d: "trace (snd (createRepository x region ''app'' ''public.ecr.aws/myorg'' w)) =
          trace w @ [LoadDefaultConfigCall region, Api (CreateRepository Public ''app'')]"
    if "load_config_error x region = None"
    using b [of "''public.ecr.aws/myorg''" "''app''"] that c by simp
  from a b d show ?thesis by blast
qed

theorem isRegistryPublic_routing_witness:
  "isRegistryPublic ''public.ecr.aws''
   \<and> \<not> isRegistryPublic ''123456789012.dkr.ecr.us-east-1.amazonaws.com''
   \<and> trace (snd (createRepository example_externals ''us-east-1'' ''app''
                   ''123456789012.dkr.ecr.us-east-1.amazonaws.com'' example_world)) =
       [LoadDefaultConfigCall ''us-east-1'', Api (CreateRepository Private ''app'')]
   \<and> trace (snd (createRepository example_externals ''us-east-1'' ''app''
                   ''public.ecr.aws/myorg'' example_world)) =
       [LoadDefaultConfigCall ''us-east-1'', Api (CreateRepository Public ''app'')]"
  using isRegistryPublic_routing [of "''public.ecr.aws''" "''app''" example_externals "''us-east-1''"
          example_world]
        isRegistryPublic_routing [of "''123456789012.dkr.ecr.us-east-1.amazonaws.com''" "''app''"
          example_externals "''us-east-1''" example_world]
  by (simp add: example_defs isRegistryPublic_def strings_HasPrefix_def ecrPublicDomain_def)

section \<open>Credential synthesis\<close>



text \<open>
  Claim C5. \<open>createDockerConfig\<close> performs the auth setup exactly when a push is requested
  or an access key is given. When neither holds it returns the config it had before
  (no credential-helper binding) and leaves the world as it was. When one holds and the
  registry host is not empty, it exports the access key and the secret key if both are
  given, and returns a config that binds the public registry domain and the registry
  host to the credential helper; it fails only when setting a variable fails. Of the
  configs it returns, exactly those of a needed setup carry the two helper bindings.
  When the setup is needed and the registry host is empty it fails with the error that
  the registry must be specified; \<open>run\<close> then returns that error with the world unchanged
  (no file written, no configuration loaded, no call of the registry service, no build)
  and the process exits with a code other than 0.
\<close>

theorem auth_setup_condition:
  "(\<not> (\<not> noPush \<or> accessKey \<noteq> '''') \<longrightarrow>
        createDockerConfig x u p accessKey secretKey registry noPush w =
          (Inr (username_config x u p), w)
        \<and> username_config x u p host \<noteq> Some (Helper helper))
   \<and> ((\<not> noPush \<or> accessKey \<noteq> '''') \<and> registry \<noteq> ''''
         \<and> (accessKey = '''' \<or> secretKey = '''') \<longrightarrow>
        createDockerConfig x u p accessKey secretKey registry noPush w =
          (Inr ((username_config x u p)
                  (''public.ecr.aws'' \<mapsto> Helper ''ecr-login'', registry \<mapsto> Helper ''ecr-login'')),
           w))
   \<and> ((\<not> noPush \<or> accessKey \<noteq> '''') \<and> registry \<noteq> ''''
         \<and> accessKey \<noteq> '''' \<and> secretKey \<noteq> ''''
         \<and> setenv_error x ''AWS_ACCESS_KEY_ID'' accessKey = None
         \<and> setenv_error x ''AWS_SECRET_ACCESS_KEY'' secretKey = None \<longrightarrow>
        createDockerConfig x u p accessKey secretKey registry noPush w =
          (Inr ((username_config x u p)
                  (''public.ecr.aws'' \<mapsto> Helper ''ecr-login'', registry \<mapsto> Helper ''ecr-login'')),
           w\<lparr>environ := (environ w)(''AWS_ACCESS_KEY_ID'' \<mapsto> accessKey,
                                        ''AWS_SECRET_ACCESS_KEY'' \<mapsto> secretKey),
             trace := trace w @ [SetenvCall ''AWS_ACCESS_KEY_ID'' accessKey,
                                 SetenvCall ''AWS_SECRET_ACCESS_KEY'' secretKey]\<rparr>))
   \<and> ((\<not> noPush \<or> accessKey \<noteq> '''') \<and> registry \<noteq> ''''
         \<and> accessKey \<noteq> '''' \<and> secretKey \<noteq> ''''
         \<and> setenv_error x ''AWS_ACCESS_KEY_ID'' accessKey = Some err \<longrightarrow>
        createDockerConfig x u p accessKey secretKey registry noPush w =
          (Inl (Wrap err ''failed to set AWS_ACCESS_KEY_ID environment variable''),
           w\<lparr>trace := trace w @ [SetenvCall ''AWS_ACCESS_KEY_ID'' accessKey]\<rparr>))
   \<and> ((\<not> noPush \<or> accessKey \<noteq> '''') \<and> registry \<noteq> ''''
         \<and> accessKey \<noteq> '''' \<and> secretKey \<noteq> ''''
         \<and> setenv_error x ''AWS_ACCESS_KEY_ID'' accessKey = None
         \<and> setenv_error x ''AWS_SECRET_ACCESS_KEY'' secretKey = Some err \<longrightarrow>
        createDockerConfig x u p accessKey secretKey registry noPush w =
          (Inl (Wrap err ''failed to set AWS_SECRET_ACCESS_KEY environment variable''),
           w\<lparr>environ := (environ w)(''AWS_ACCESS_KEY_ID'' \<mapsto> accessKey),
             trace := trace w @ [SetenvCall ''AWS_ACCESS_KEY_ID'' accessKey,
                                 SetenvCall ''AWS_SECRET_ACCESS_KEY'' secretKey]\<rparr>))
   \<and> (createDockerConfig x u p accessKey secretKey registry noPush w = (Inr cfg, w') \<longrightarrow>
        (cfg ''public.ecr.aws'' = Some (Helper ''ecr-login'')
           \<and> cfg registry = Some (Helper ''ecr-login'')
         \<longleftrightarrow> \<not> noPush \<or> accessKey \<noteq> ''''))
   \<and> ((\<not> noPush \<or> accessKey \<noteq> '''') \<and> registry = '''' \<longrightarrow>
        createDockerConfig x u p accessKey secretKey registry noPush w =
          (Inl (Errorf ''registry must be specified''), w))
   \<and> ((\<not> c_Bool c ''no-push'' \<or> c_String c ''access-key'' \<noteq> '''')
         \<and> c_String c ''registry'' = '''' \<longrightarrow>
        run x c w = (Return (Some (Errorf ''registry must be specified'')), w)
        \<and> exit_code (fst (run x c w)) \<noteq> 0)"
proof -
  let ?cdc = "createDockerConfig x u p accessKey secretKey registry noPush w"
  let ?helpers = "(username_config x u p)
      (''public.ecr.aws'' \<mapsto> Helper ''ecr-login'', registry \<mapsto> Helper ''ecr-login'')"
  have nohelper: "username_config x u p host \<noteq> Some (Helper helper)" for host helper
    by (simp add: username_config_def SetAuth_def NewConfig_def)
  have skipped: "?cdc = (Inr (username_config x u p), w)"
    if "\<not> (\<not> noPush \<or> accessKey \<noteq> '''')"
    using that by (simp add: createDockerConfig_skipped username_config_def)
  have role: "?cdc = (Inr ?helpers, w)"
    if "\<not> noPush \<or> accessKey \<noteq> ''''" "registry \<noteq> ''''" "accessKey = '''' \<or> secretKey = ''''"
    using that
    by (auto simp: createDockerConfig_def username_config_def SetCredHelper_def
          ecrPublicDomain_def)
  have keys: "?cdc =
      (Inr ?helpers,
       w\<lparr>environ := (environ w)(''AWS_ACCESS_KEY_ID'' \<mapsto> accessKey,
                                    ''AWS_SECRET_ACCESS_KEY'' \<mapsto> secretKey),
         trace := trace w @ [SetenvCall ''AWS_ACCESS_KEY_ID'' accessKey,
                             SetenvCall ''AWS_SECRET_ACCESS_KEY'' secretKey]\<rparr>)"
    if "registry \<noteq> ''''" "accessKey \<noteq> ''''" "secretKey \<noteq> ''''"
      "setenv_error x ''AWS_ACCESS_KEY_ID'' accessKey = None"
      "setenv_error x ''AWS_SECRET_ACCESS_KEY'' secretKey = None"
    using that
    by (simp add: createDockerConfig_def username_config_def SetCredHelper_def
          ecrPublicDomain_def accessKeyEnv_def secretKeyEnv_def os_Setenv_def record_event_def)
  have fail1: "?cdc =
      (Inl (Wrap err ''failed to set AWS_ACCESS_KEY_ID environment variable''),
       w\<lparr>trace := trace w @ [SetenvCall ''AWS_ACCESS_KEY_ID'' accessKey]\<rparr>)"
    if "registry \<noteq> ''''" "accessKey \<noteq> ''''" "secretKey \<noteq> ''''"
      "setenv_error x ''AWS_ACCESS_KEY_ID'' accessKey = Some err"
    using that
    by (simp add: createDockerConfig_def accessKeyEnv_def secretKeyEnv_def os_Setenv_def
          record_event_def)
  have fail2: "?cdc =
      (Inl (Wrap err ''failed to set AWS_SECRET_ACCESS_KEY environment variable''),
       w\<lparr>environ := (environ w)(''AWS_ACCESS_KEY_ID'' \<mapsto> accessKey),
         trace := trace w @ [SetenvCall ''AWS_ACCESS_KEY_ID'' accessKey,
                             SetenvCall ''AWS_SECRET_ACCESS_KEY'' secretKey]\<rparr>)"
    if "registry \<noteq> ''''" "accessKey \<noteq> ''''" "secretKey \<noteq> ''''"
      "setenv_error x ''AWS_ACCESS_KEY_ID'' accessKey = None"
      "setenv_error x ''AWS_SECRET_ACCESS_KEY'' secretKey = Some err"
    using that
    by (simp add: createDockerConfig_def accessKeyEnv_def secretKeyEnv_def os_Setenv_def
          record_event_def)
  have exactly: "cfg ''public.ecr.aws'' = Some (Helper ''ecr-login'')
           \<and> cfg registry = Some (Helper ''ecr-login'')
         \<longleftrightarrow> \<not> noPush \<or> accessKey \<noteq> ''''"
    if ok: "?cdc = (Inr cfg, w')"
  proof (cases "\<not> noPush \<or> accessKey \<noteq> ''''")
    case True
    with createDockerConfig_helpers [OF True ok] show ?thesis
      by (simp add: ecrPublicDomain_def)
  next
    case False
    with ok skipped have "cfg = username_config x u p" by simp
    with False nohelper [of "''public.ecr.aws''" "''ecr-login''"] show ?thesis by simp
  qed
  have noreg: "?cdc = (Inl (Errorf ''registry must be specified''), w)"
    if "\<not> noPush \<or> accessKey \<noteq> ''''" "registry = ''''"
    using that by (rule createDockerConfig_no_registry)
  have atrun: "run x c w = (Return (Some (Errorf ''registry must be specified'')), w)
        \<and> exit_code (fst (run x c w)) \<noteq> 0"
    if "\<not> c_Bool c ''no-push'' \<or> c_String c ''access-key'' \<noteq> ''''" "c_String c ''registry'' = ''''"
  proof -
    have "run x c w = (Return (Some (Errorf ''registry must be specified'')), w)"
      using createDockerConfig_no_registry [OF that, of x "c_String c ''docker-username''"
          "c_String c ''docker-password''" "c_String c ''secret-key''" w] that(2)
      by (simp add: run_def Let_def split del: if_split)
    then show ?thesis by (simp add: exit_code_def)
  qed
  show ?thesis
  proof (intro conjI impI)
    assume "\<not> (\<not> noPush \<or> accessKey \<noteq> '''')"
    then show "?cdc = (Inr (username_config x u p), w)" by (rule skipped)
  next
    show "username_config x u p host \<noteq> Some (Helper helper)" by (rule nohelper)
  next
    assume "(\<not> noPush \<or> accessKey \<noteq> '''') \<and> registry \<noteq> ''''
         \<and> (accessKey = '''' \<or> secretKey = '''')"
    then show "?cdc = (Inr ?helpers, w)" using role by blast
  next
    assume "(\<not> noPush \<or> accessKey \<noteq> '''') \<and> registry \<noteq> ''''
         \<and> accessKey \<noteq> '''' \<and> secretKey \<noteq> ''''
         \<and> setenv_error x ''AWS_ACCESS_KEY_ID'' accessKey = None
         \<and> setenv_error x ''AWS_SECRET_ACCESS_KEY'' secretKey = None"
    then show "?cdc =
      (Inr ?helpers,
       w\<lparr>environ := (environ w)(''AWS_ACCESS_KEY_ID'' \<mapsto> accessKey,
                                    ''AWS_SECRET_ACCESS_KEY'' \<mapsto> secretKey),
         trace := trace w @ [SetenvCall ''AWS_ACCESS_KEY_ID'' accessKey,
                             SetenvCall ''AWS_SECRET_ACCESS_KEY'' secretKey]\<rparr>)"
      using keys by blast
  next
    assume "(\<not> noPush \<or> accessKey \<noteq> '''') \<and> registry \<noteq> ''''
         \<and> accessKey \<noteq> '''' \<and> secretKey \<noteq> ''''
         \<and> setenv_error x ''AWS_ACCESS_KEY_ID'' accessKey = Some err"
    then show "?cdc =
      (Inl (Wrap err ''failed to set AWS_ACCESS_KEY_ID environment variable''),
       w\<lparr>trace := trace w @ [SetenvCall ''AWS_ACCESS_KEY_ID'' accessKey]\<rparr>)"
      using fail1 by blast
  next
    assume "(\<not> noPush \<or> accessKey \<noteq> '''') \<and> registry \<noteq> ''''
         \<and> accessKey \<noteq> '''' \<and> secretKey \<noteq> ''''
         \<and> setenv_error x ''AWS_ACCESS_KEY_ID'' accessKey = None
         \<and> setenv_error x ''AWS_SECRET_ACCESS_KEY'' secretKey = Some err"
    then show "?cdc =
      (Inl (Wrap err ''failed to set AWS_SECRET_ACCESS_KEY environment variable''),
       w\<lparr>environ := (environ w)(''AWS_ACCESS_KEY_ID'' \<mapsto> accessKey),
         trace := trace w @ [SetenvCall ''AWS_ACCESS_KEY_ID'' accessKey,
                             SetenvCall ''AWS_SECRET_ACCESS_KEY'' secretKey]\<rparr>)"
      using fail2 by blast
  next
    assume "?cdc = (Inr cfg, w')"
    then show "cfg ''public.ecr.aws'' = Some (Helper ''ecr-login'')
           \<and> cfg registry = Some (Helper ''ecr-login'')
         \<longleftrightarrow> \<not> noPush \<or> accessKey \<noteq> ''''"
      by (rule exactly)
  next
    assume "(\<not> noPush \<or> accessKey \<noteq> '''') \<and> registry = ''''"
    then show "?cdc = (Inl (Errorf ''registry must be specified''), w)" using noreg by blast
  next
    assume a: "(\<not> c_Bool c ''no-push'' \<or> c_String c ''access-key'' \<noteq> '''')
         \<and> c_String c ''registry'' = ''''"
    then show "run x c w = (Return (Some (Errorf ''registry must be specified'')), w)"
      using atrun by blast
    from a show "exit_code (fst (run x c w)) \<noteq> 0" using atrun by blast
  qed
qed

theorem auth_setup_condition_witness:
  "createDockerConfig example_externals ''octocat'' ''hunter2'' ''AKIAEXAMPLE'' ''secret''
     ''123456789012.dkr.ecr.us-east-1.amazonaws.com'' True example_world =
     (Inr [''https://index.docker.io/v1/'' \<mapsto> Static ''octocat'' ''hunter2'',
           ''public.ecr.aws'' \<mapsto> Helper ''ecr-login'',
           ''123456789012.dkr.ecr.us-east-1.amazonaws.com'' \<mapsto> Helper ''ecr-login''],
      example_world
        \<lparr>environ := [''AWS_ACCESS_KEY_ID'' \<mapsto> ''AKIAEXAMPLE'',
                     ''AWS_SECRET_ACCESS_KEY'' \<mapsto> ''secret''],
         trace := [SetenvCall ''AWS_ACCESS_KEY_ID'' ''AKIAEXAMPLE'',
                   SetenvCall ''AWS_SECRET_ACCESS_KEY'' ''secret'']\<rparr>)
   \<and> createDockerConfig example_externals '''' '''' '''' ''''
       ''123456789012.dkr.ecr.us-east-1.amazonaws.com'' False example_world =
     (Inr [''public.ecr.aws'' \<mapsto> Helper ''ecr-login'',
           ''123456789012.dkr.ecr.us-east-1.amazonaws.com'' \<mapsto> Helper ''ecr-login''],
      example_world)
   \<and> createDockerConfig example_externals ''octocat'' ''hunter2'' '''' ''secret''
       ''123456789012.dkr.ecr.us-east-1.amazonaws.com'' True example_world =
     (Inr [''https://index.docker.io/v1/'' \<mapsto> Static ''octocat'' ''hunter2''], example_world)
   \<and> run example_externals no_registry_context example_world =
       (Return (Some (Errorf ''registry must be specified'')), example_world)
   \<and> exit_code (fst (run example_externals no_registry_context example_world)) = 1"
  using auth_setup_condition
          [where x = example_externals and u = "''octocat''" and p = "''hunter2''"
             and accessKey = "''AKIAEXAMPLE''" and secretKey = "''secret''"
             and registry = "''123456789012.dkr.ecr.us-east-1.amazonaws.com''"
             and noPush = True and w = example_world and c = no_registry_context
             and cfg = NewConfig and w' = example_world and host = "''h''" and helper = "''h''"
             and err = "Errorf ''e''"]
        auth_setup_condition
          [where x = example_externals and u = "''''" and p = "''''"
             and accessKey = "''''" and secretKey = "''''"
             and registry = "''123456789012.dkr.ecr.us-east-1.amazonaws.com''"
             and noPush = False and w = example_world and c = no_registry_context
             and cfg = NewConfig and w' = example_world and host = "''h''" and helper = "''h''"
             and err = "Errorf ''e''"]
        auth_setup_condition
          [where x = example_externals and u = "''octocat''" and p = "''hunter2''"
             and accessKey = "''''" and secretKey = "''secret''"
             and registry = "''123456789012.dkr.ecr.us-east-1.amazonaws.com''"
             and noPush = True and w = example_world and c = no_registry_context
             and cfg = NewConfig and w' = example_world and host = "''h''" and helper = "''h''"
             and err = "Errorf ''e''"]
  by (simp add: example_defs exit_code_def username_config_def SetAuth_def NewConfig_def)

section \<open>The orchestrator\<close>

lemma quiet_refl: "quiet w w"
  by (simp add: quiet_def)

lemma quiet_trans: "quiet w w1 \<Longrightarrow> quiet w1 w2 \<Longrightarrow> quiet w w2"
  by (simp add: quiet_def)

lemma quiet_record_event: "\<not> is_Exec e \<Longrightarrow> quiet w (record_event e w)"
  by (simp add: quiet_def record_event_def executor_calls_def)

lemma executor_calls_record_Exec: "executor_calls (record_event (Exec p) w) = Suc (executor_calls w)"
  by (simp add: record_event_def executor_calls_def)

lemma LoadDefaultConfig_quiet: "quiet w (snd (config_LoadDefaultConfig x region w))"
  by (simp add: config_LoadDefaultConfig_def quiet_record_event)

lemma svc_quiet: "quiet w (snd (svc x call w))"
  by (simp add: svc_def quiet_record_event)

lemma ReadFile_quiet: "quiet w (snd (ioutil_ReadFile path w))"
  by (simp add: ioutil_ReadFile_def quiet_record_event split: option.splits)

lemma createRepository_quiet: "quiet w (snd (createRepository x region repo registry w))"
proof -
  let ?w1 = "record_event (LoadDefaultConfigCall region) w"
  have 1: "quiet w ?w1" by (simp add: quiet_record_event)
  have 2: "quiet w (record_event (Api call) ?w1)" for call
    using 1 quiet_record_event [of "Api call" ?w1] quiet_trans by simp
  show ?thesis
    using 1 2
    by (simp add: createRepository_def config_LoadDefaultConfig_def svc_def quiet_refl
             case_prod_beta split: option.splits)
qed

lemma uploadLifeCyclePolicy_quiet: "quiet w (snd (uploadLifeCyclePolicy x region repo policy w))"
proof -
  let ?w1 = "record_event (LoadDefaultConfigCall region) w"
  have 1: "quiet w ?w1" by (simp add: quiet_record_event)
  have 2: "quiet w (record_event (Api call) ?w1)" for call
    using 1 quiet_record_event [of "Api call" ?w1] quiet_trans by simp
  show ?thesis
    using 1 2
    by (simp add: uploadLifeCyclePolicy_def config_LoadDefaultConfig_def svc_def
             case_prod_beta split: option.splits)
qed

lemma uploadRepositoryPolicy_quiet:
  "quiet w (snd (uploadRepositoryPolicy x region repo registry policy w))"
proof -
  let ?w1 = "record_event (LoadDefaultConfigCall region) w"
  have 1: "quiet w ?w1" by (simp add: quiet_record_event)
  have 2: "quiet w (record_event (Api call) ?w1)" for call
    using 1 quiet_record_event [of "Api call" ?w1] quiet_trans by simp
  show ?thesis
    using 1 2
    by (simp add: uploadRepositoryPolicy_def config_LoadDefaultConfig_def svc_def
             case_prod_beta split: option.splits)
qed

lemma RepositoryEnsure_quiet: "quiet w (snd (RepositoryEnsure x c w))"
  using createRepository_quiet [of w x "c_String c ''region''" "c_String c ''repo''" "c_String c ''registry''"]
  by (simp add: RepositoryEnsure_def quiet_refl case_prod_beta)

lemma LifecyclePolicyUpload_quiet: "quiet w (snd (LifecyclePolicyUpload x c w))"
proof (cases "c_IsSet c ''lifecycle-policy''")
  case False
  then show ?thesis by (simp add: LifecyclePolicyUpload_def quiet_refl)
next
  case True
  let ?r = "ioutil_ReadFile (c_String c ''lifecycle-policy'') w"
  have 1: "quiet w (snd ?r)" by (rule ReadFile_quiet)
  have 2: "quiet w (snd (uploadLifeCyclePolicy x region repo policy (snd ?r)))" for region repo policy
    using 1 uploadLifeCyclePolicy_quiet quiet_trans by blast
  show ?thesis
    using True 1 2
    by (simp add: LifecyclePolicyUpload_def case_prod_beta split: sum.splits)
qed

lemma RepositoryPolicyUpload_quiet: "quiet w (snd (RepositoryPolicyUpload x c w))"
proof (cases "c_IsSet c ''repository-policy''")
  case False
  then show ?thesis by (simp add: RepositoryPolicyUpload_def quiet_refl)
next
  case True
  let ?r = "ioutil_ReadFile (c_String c ''repository-policy'') w"
  have 1: "quiet w (snd ?r)" by (rule ReadFile_quiet)
  have 2: "quiet w (snd (uploadRepositoryPolicy x region repo registry policy (snd ?r)))"
    for region repo registry policy
    using 1 uploadRepositoryPolicy_quiet quiet_trans by blast
  show ?thesis
    using True 1 2
    by (simp add: RepositoryPolicyUpload_def case_prod_beta split: sum.splits)
qed

lemma os_Setenv_calls: "executor_calls (snd (os_Setenv x key val w)) = executor_calls w"
  by (simp add: os_Setenv_def record_event_def executor_calls_def split: option.splits)

lemma WriteFile_calls: "executor_calls (snd (ioutil_WriteFile x path content w)) = executor_calls w"
  by (simp add: ioutil_WriteFile_def record_event_def executor_calls_def split: option.splits)

lemma createDockerConfig_calls:
  "executor_calls (snd (createDockerConfig x u p accessKey secretKey registry noPush w)) = executor_calls w"
proof -
  let ?w1 = "snd (os_Setenv x accessKeyEnv accessKey w)"
  have 1: "executor_calls ?w1 = executor_calls w" by (rule os_Setenv_calls)
  have 2: "executor_calls (snd (os_Setenv x secretKeyEnv secretKey ?w1)) = executor_calls w"
    using 1 os_Setenv_calls by simp
  show ?thesis
    using 1 2
    by (simp add: createDockerConfig_def Let_def case_prod_beta split: option.splits)
qed

lemma CredentialSetup_calls: "executor_calls (snd (CredentialSetup x c w)) = executor_calls w"
proof -
  let ?r = "createDockerConfig x (c_String c ''docker-username'') (c_String c ''docker-password'')
             (c_String c ''access-key'') (c_String c ''secret-key'') (c_String c ''registry'')
             (c_Bool c ''no-push'') w"
  have 1: "executor_calls (snd ?r) = executor_calls w" by (rule createDockerConfig_calls)
  have 2: "executor_calls (snd (ioutil_WriteFile x path content (snd ?r))) = executor_calls w"
    for path content
    using 1 WriteFile_calls by simp
  show ?thesis
    using 1 2
    by (simp add: CredentialSetup_def case_prod_beta split: sum.splits)
qed


lemma RepositoryEnsure_raw:
  assumes "(if \<not> c_Bool c ''no-push'' \<and> c_Bool c ''create-repository''
            then createRepository x (c_String c ''region'') (c_String c ''repo'')
                   (c_String c ''registry'') w
            else (None, w)) = (r, w')"
  shows "RepositoryEnsure x c w = (r = None, w')"
  using assms by (auto simp: RepositoryEnsure_def split: if_splits)

lemma LifecyclePolicyUpload_raw:
  assumes "(if c_IsSet c ''lifecycle-policy'' then
             (case ioutil_ReadFile (c_String c ''lifecycle-policy'') w of
                (Inl err, w') \<Rightarrow> (Some (FatalError err), w')
              | (Inr contents, w') \<Rightarrow>
                  (case uploadLifeCyclePolicy x (c_String c ''region'') (c_String c ''repo'')
                          contents w' of
                     (Some err, w'') \<Rightarrow>
                       (Some (FatalMessage ''error uploading ECR lifecycle policy: '' err), w'')
                   | (None, w'') \<Rightarrow> (None, w'')))
           else (None, w)) = (r, w')"
  shows "LifecyclePolicyUpload x c w = (r = None, w')"
  using assms
  by (auto simp: LifecyclePolicyUpload_def split: if_splits prod.splits sum.splits option.splits)

lemma RepositoryPolicyUpload_raw:
  assumes "(if c_IsSet c ''repository-policy'' then
             (case ioutil_ReadFile (c_String c ''repository-policy'') w of
                (Inl err, w') \<Rightarrow> (Some (FatalError err), w')
              | (Inr contents, w') \<Rightarrow>
                  (case uploadRepositoryPolicy x (c_String c ''region'') (c_String c ''repo'')
                          (c_String c ''registry'') contents w' of
                     (Some err, w'') \<Rightarrow>
                       (Some (FatalMessage ''error uploading ECR lifecycle policy: '' err), w'')
                   | (None, w'') \<Rightarrow> (None, w'')))
           else (None, w)) = (r, w')"
  shows "RepositoryPolicyUpload x c w = (r = None, w')"
  using assms
  by (auto simp: RepositoryPolicyUpload_def split: if_splits prod.splits sum.splits option.splits)

lemma CredentialSetup_cases:
  obtains err w1 where
      "createDockerConfig x (c_String c ''docker-username'') (c_String c ''docker-password'')
         (c_String c ''access-key'') (c_String c ''secret-key'') (c_String c ''registry'')
         (c_Bool c ''no-push'') w = (Inl err, w1)"
      "CredentialSetup x c w = (False, w1)"
  | cfg err w1 where
      "createDockerConfig x (c_String c ''docker-username'') (c_String c ''docker-password'')
         (c_String c ''access-key'') (c_String c ''secret-key'') (c_String c ''registry'')
         (c_Bool c ''no-push'') w = (Inr cfg, w1)"
      "json_Marshal x cfg = Inl err"
      "CredentialSetup x c w = (False, w1)"
  | cfg js r w1 w2 where
      "createDockerConfig x (c_String c ''docker-username'') (c_String c ''docker-password'')
         (c_String c ''access-key'') (c_String c ''secret-key'') (c_String c ''registry'')
         (c_Bool c ''no-push'') w = (Inr cfg, w1)"
      "json_Marshal x cfg = Inr js"
      "ioutil_WriteFile x dockerConfigPath js w1 = (r, w2)"
      "CredentialSetup x c w = (r = None, w2)"
proof -
  let ?cdc = "createDockerConfig x (c_String c ''docker-username'') (c_String c ''docker-password'')
         (c_String c ''access-key'') (c_String c ''secret-key'') (c_String c ''registry'')
         (c_Bool c ''no-push'') w"
  obtain r1 w1 where e1: "?cdc = (r1, w1)" by (cases ?cdc)
  show thesis
  proof (cases r1)
    case (Inl err)
    with e1 that(1) show thesis by (simp add: CredentialSetup_def)
  next
    case cfg: (Inr cfg)
    show thesis
    proof (cases "json_Marshal x cfg")
      case (Inl err)
      with e1 cfg that(2) show thesis by (simp add: CredentialSetup_def)
    next
      case js: (Inr js)
      obtain r w2 where e2: "ioutil_WriteFile x dockerConfigPath js w1 = (r, w2)"
        by (cases "ioutil_WriteFile x dockerConfigPath js w1")
      with e1 cfg js that(3) show thesis by (simp add: CredentialSetup_def)
    qed
  qed
qed


lemma run_stages:
  "snd (run x c w) =
     (let s1 = CredentialSetup x c w in
      if \<not> fst s1 then snd s1 else
      let s2 = RepositoryEnsure x c (snd s1) in
      if \<not> fst s2 then snd s2 else
      let s3 = LifecyclePolicyUpload x c (snd s2) in
      if \<not> fst s3 then snd s3 else
      let s4 = RepositoryPolicyUpload x c (snd s3) in
      if \<not> fst s4 then snd s4 else record_event (Exec (ecr_plugin c)) (snd s4))
   \<and> (fst (run x c w) = Return None \<longrightarrow>
        fst (CredentialSetup x c w)
        \<and> fst (RepositoryEnsure x c (snd (CredentialSetup x c w)))
        \<and> fst (LifecyclePolicyUpload x c
                 (snd (RepositoryEnsure x c (snd (CredentialSetup x c w)))))
        \<and> fst (RepositoryPolicyUpload x c
                 (snd (LifecyclePolicyUpload x c
                         (snd (RepositoryEnsure x c (snd (CredentialSetup x c w))))))))"
proof (cases x c w rule: CredentialSetup_cases)
  case (1 err w1)
  then show ?thesis by (simp add: run_def Let_def)
next
  case (2 cfg err w1)
  then show ?thesis by (simp add: run_def Let_def)
next
  case (3 cfg js r2 w1 w2)
  note cs = this
  show ?thesis
  proof (cases r2)
    case (Some err)
    with cs show ?thesis by (simp add: run_def Let_def)
  next
    case r2: None
    obtain r3 w3 where e3:
      "(if \<not> c_Bool c ''no-push'' \<and> c_Bool c ''create-repository''
        then createRepository x (c_String c ''region'') (c_String c ''repo'')
               (c_String c ''registry'') w2
        else (None, w2)) = (r3, w3)"
      by fastforce
    note s2 = RepositoryEnsure_raw [OF e3]
    show ?thesis
    proof (cases r3)
      case (Some err)
      with cs r2 e3 s2 show ?thesis by (simp add: run_def Let_def split del: if_split)
    next
      case r3: None
      obtain r4 w4 where e4:
        "(if c_IsSet c ''lifecycle-policy'' then
           (case ioutil_ReadFile (c_String c ''lifecycle-policy'') w3 of
              (Inl err, w') \<Rightarrow> (Some (FatalError err), w')
            | (Inr contents, w') \<Rightarrow>
                (case uploadLifeCyclePolicy x (c_String c ''region'') (c_String c ''repo'')
                        contents w' of
                   (Some err, w'') \<Rightarrow>
                     (Some (FatalMessage ''error uploading ECR lifecycle policy: '' err), w'')
                 | (None, w'') \<Rightarrow> (None, w'')))
         else (None, w3)) = (r4, w4)"
        by fastforce
      note s3 = LifecyclePolicyUpload_raw [OF e4]
      show ?thesis
      proof (cases r4)
        case (Some msg)
        with cs r2 e3 s2 r3 e4 s3 show ?thesis
          by (simp add: run_def Let_def split del: if_split)
      next
        case r4: None
        obtain r5 w5 where e5:
          "(if c_IsSet c ''repository-policy'' then
             (case ioutil_ReadFile (c_String c ''repository-policy'') w4 of
                (Inl err, w') \<Rightarrow> (Some (FatalError err), w')
              | (Inr contents, w') \<Rightarrow>
                  (case uploadRepositoryPolicy x (c_String c ''region'') (c_String c ''repo'')
                          (c_String c ''registry'') contents w' of
                     (Some err, w'') \<Rightarrow>
                       (Some (FatalMessage ''error uploading ECR lifecycle policy: '' err), w'')
                   | (None, w'') \<Rightarrow> (None, w'')))
           else (None, w4)) = (r5, w5)"
          by fastforce
        note s4 = RepositoryPolicyUpload_raw [OF e5]
        show ?thesis
        proof (cases r5)
          case (Some msg)
          with cs r2 e3 s2 r3 e4 s3 r4 e5 s4 show ?thesis
            by (simp add: run_def Let_def split del: if_split)
        next
          case None
          with cs r2 e3 s2 r3 e4 s3 r4 e5 s4 show ?thesis
            by (simp add: run_def Let_def plugin_Exec_def split del: if_split)
        qed
      qed
    qed
  qed
qed

lemmas run_world = run_stages [THEN conjunct1]

lemma run_files_environ:
  "files (snd (run x c w)) = files (snd (CredentialSetup x c w))
   \<and> environ (snd (run x c w)) = environ (snd (CredentialSetup x c w))"
proof -
  let ?s1 = "CredentialSetup x c w"
  let ?s2 = "RepositoryEnsure x c (snd ?s1)"
  let ?s3 = "LifecyclePolicyUpload x c (snd ?s2)"
  let ?s4 = "RepositoryPolicyUpload x c (snd ?s3)"
  have 2: "quiet (snd ?s1) (snd ?s2)" by (rule RepositoryEnsure_quiet)
  have 3: "quiet (snd ?s1) (snd ?s3)"
    using 2 LifecyclePolicyUpload_quiet quiet_trans by blast
  have 4: "quiet (snd ?s1) (snd ?s4)"
    using 3 RepositoryPolicyUpload_quiet quiet_trans by blast
  show ?thesis
    using 2 3 4 by (simp add: run_world Let_def quiet_def record_event_def)
qed

lemmas run_eval =
  run_def createDockerConfig_def createRepository_def uploadLifeCyclePolicy_def
  uploadRepositoryPolicy_def effect_defs constant_defs example_defs Let_def
  SetAuth_def SetCredHelper_def NewConfig_def errors_As_def errors_Wrap_def
  isRegistryPublic_def strings_HasPrefix_def

text \<open>
  What holds of every run: the build executor is invoked at most once, and exactly when
  no bootstrap state returned an error; when one did, the process ends with an exit
  code other than 0.
\<close>

lemma run_returns_error:
  "\<not> no_step_returns_error x c w \<Longrightarrow> exit_code (fst (run x c w)) \<noteq> 0"
proof -
  assume "\<not> no_step_returns_error x c w"
  then have "fst (run x c w) \<noteq> Return None"
    using run_stages [of x c w] by (auto simp: no_step_returns_error_def case_prod_beta)
  then show ?thesis
    by (cases "fst (run x c w)") (auto simp: exit_code_def split: option.splits)
qed

lemma run_executor_calls:
  "executor_calls (snd (run x c w)) =
     executor_calls w + (if no_step_returns_error x c w then 1 else 0)"
proof -
  let ?s1 = "CredentialSetup x c w"
  let ?s2 = "RepositoryEnsure x c (snd ?s1)"
  let ?s3 = "LifecyclePolicyUpload x c (snd ?s2)"
  let ?s4 = "RepositoryPolicyUpload x c (snd ?s3)"
  have 1: "executor_calls (snd ?s1) = executor_calls w" by (rule CredentialSetup_calls)
  have 2: "executor_calls (snd ?s2) = executor_calls w"
    using 1 RepositoryEnsure_quiet [of "snd ?s1" x c] by (simp add: quiet_def)
  have 3: "executor_calls (snd ?s3) = executor_calls w"
    using 2 LifecyclePolicyUpload_quiet [of "snd ?s2" x c] by (simp add: quiet_def)
  have 4: "executor_calls (snd ?s4) = executor_calls w"
    using 3 RepositoryPolicyUpload_quiet [of "snd ?s3" x c] by (simp add: quiet_def)
  show ?thesis
    using 1 2 3 4
    by (simp add: run_world no_step_returns_error_def Let_def case_prod_beta
          executor_calls_record_Exec)
qed

text \<open>
  Claim C8. The orchestrator is to invoke the build executor at most once per run, and
  only if the credential setup, the repository-ensure step and every requested policy
  upload succeeded, so that a failure among them ends the run without a build. The code
  does not keep this for the repository-ensure step: when the create call of the
  registry service fails with an error that carries no API error code,
  \<open>createRepository\<close> returns no error and the run goes on. In the example the registry
  cannot be reached for the repository \<open>unreachable\<close>, with push and repository creation
  requested: the create call fails, and still the repository policy is uploaded, the
  build executor is invoked once and the process ends with exit code 0.
\<close>

theorem executor_runs_after_failed_create:
  "\<not> c_Bool (push_context ''unreachable'') ''no-push''
   \<and> c_Bool (push_context ''unreachable'') ''create-repository''
   \<and> create_answer example_externals ''us-east-1'' ''unreachable''
        ''123456789012.dkr.ecr.us-east-1.amazonaws.com''
        (snd (CredentialSetup example_externals (push_context ''unreachable'') example_world)) =
       Some (Wrap (Errorf ''dial tcp: i/o timeout'') ''operation error ECR: CreateRepository'')
   \<and> trace (snd (run example_externals (push_context ''unreachable'') example_world)) =
       [SetenvCall ''AWS_ACCESS_KEY_ID'' ''AKIAEXAMPLE'',
        SetenvCall ''AWS_SECRET_ACCESS_KEY'' ''secret'',
        WriteFileCall ''/kaniko/.docker/config.json''
          ''public.ecr.aws credHelper ecr-login; 123456789012.dkr.ecr.us-east-1.amazonaws.com credHelper ecr-login; '',
        LoadDefaultConfigCall ''us-east-1'',
        Api (CreateRepository Private ''unreachable''),
        ReadFileCall ''policy.json'',
        LoadDefaultConfigCall ''us-east-1'',
        Api (SetRepositoryPolicy Private ''unreachable'' ''policy statements''),
        Exec (ecr_plugin (push_context ''unreachable''))]
   \<and> fst (run example_externals (push_context ''unreachable'') example_world) = Return None
   \<and> exit_code (fst (run example_externals (push_context ''unreachable'') example_world)) = 0
   \<and> executor_calls (snd (run example_externals (push_context ''unreachable'') example_world)) = 1"
  by (simp add: run_eval create_answer_def CredentialSetup_def exit_code_def executor_calls_def)

text \<open>
  Claim C3, as the code has it. When push is suppressed and no access key is given,
  \<open>createDockerConfig\<close> skips the auth setup: it succeeds, leaves the world untouched (no
  environment variable exported, no file written) and returns a config without any
  credential-helper binding, whose only entry is the static one of the default registry
  when a username is given. \<open>run\<close> exports no environment variable either, but it still
  writes the serialised config to the credential-document path.
\<close>

theorem auth_skip_effects:
  assumes "c_Bool c ''no-push''" "c_String c ''access-key'' = ''''"
  shows "createDockerConfig x (c_String c ''docker-username'') (c_String c ''docker-password'')
           (c_String c ''access-key'') (c_String c ''secret-key'') (c_String c ''registry'')
           (c_Bool c ''no-push'') w =
           (Inr (username_config x (c_String c ''docker-username'') (c_String c ''docker-password'')), w)
       \<and> username_config x (c_String c ''docker-username'') (c_String c ''docker-password'') host
            \<noteq> Some (Helper helper)
       \<and> (c_String c ''docker-username'' = '''' \<longrightarrow>
            username_config x (c_String c ''docker-username'') (c_String c ''docker-password'')
              = NewConfig)
       \<and> environ (snd (run x c w)) = environ w
       \<and> (json_Marshal x
             (username_config x (c_String c ''docker-username'') (c_String c ''docker-password''))
               = Inr js
            \<and> writefile_error x dockerConfigPath = None \<longrightarrow>
            files (snd (run x c w)) = (files w)(dockerConfigPath \<mapsto> js))"
proof -
  let ?cfg = "username_config x (c_String c ''docker-username'') (c_String c ''docker-password'')"
  have cdc: "createDockerConfig x (c_String c ''docker-username'') (c_String c ''docker-password'')
           (c_String c ''access-key'') (c_String c ''secret-key'') (c_String c ''registry'')
           (c_Bool c ''no-push'') w = (Inr ?cfg, w)"
    using assms by (simp add: createDockerConfig_skipped username_config_def)
  have nohelper: "?cfg host \<noteq> Some (Helper helper)"
    by (simp add: username_config_def SetAuth_def NewConfig_def)
  have empty: "c_String c ''docker-username'' = '''' \<longrightarrow> ?cfg = NewConfig"
    by (simp add: username_config_def)
  have env: "environ (snd (CredentialSetup x c w)) = environ w"
    by (simp add: CredentialSetup_def cdc ioutil_WriteFile_def record_event_def
          split: sum.splits option.splits)
  have fil: "files (snd (CredentialSetup x c w)) = (files w)(dockerConfigPath \<mapsto> js)"
    if "json_Marshal x ?cfg = Inr js" "writefile_error x dockerConfigPath = None"
    using that by (simp add: CredentialSetup_def cdc ioutil_WriteFile_def record_event_def)
  from cdc nohelper empty env fil show ?thesis
    by (simp add: run_files_environ)
qed

theorem auth_skip_effects_witness:
  "environ (snd (run example_externals dry_run_context example_world)) = Map.empty
   \<and> files (snd (run example_externals dry_run_context example_world)) =
       (files example_world)(''/kaniko/.docker/config.json'' \<mapsto>
          ''https://index.docker.io/v1/ auth octocat:hunter2; '')"
  using auth_skip_effects
          [where c = dry_run_context and x = example_externals and w = example_world
             and js = "''https://index.docker.io/v1/ auth octocat:hunter2; ''"]
  by (simp add: example_defs username_config_def SetAuth_def NewConfig_def dockerConfigPath_def)

theorem auth_skip_counterexample:
  "c_Bool dry_run_context ''no-push''
   \<and> c_String dry_run_context ''access-key'' = ''''
   \<and> files example_world dockerConfigPath = Some ''previous content''
   \<and> files (snd (run example_externals dry_run_context example_world)) dockerConfigPath =
       Some ''https://index.docker.io/v1/ auth octocat:hunter2; ''
   \<and> fst (createDockerConfig example_externals ''octocat'' ''hunter2'' '''' ''''
            ''public.ecr.aws/myorg'' True example_world) =
       Inr [''https://index.docker.io/v1/'' \<mapsto> Static ''octocat'' ''hunter2'']"
  by (simp add: run_eval)

section \<open>Policy upload\<close>

text \<open>
  Claim C2, as the code has it. \<open>uploadRepositoryPolicy\<close> chooses the public or the
  private API family by the test \<open>isRegistryPublic\<close> that \<open>createRepository\<close> uses, and
  passes the policy text unchanged to the set-policy operation of that family.
  \<open>uploadLifeCyclePolicy\<close> has no registry argument: it always calls the private family,
  also passing the policy text unchanged.
\<close>

theorem policy_upload_backend:
  assumes "load_config_error x region = None"
  shows "uploadRepositoryPolicy x region repo registry policy w =
           (backend x (trace w @ [LoadDefaultConfigCall region])
              (SetRepositoryPolicy (if isRegistryPublic registry then Public else Private) repo policy),
            w\<lparr>trace := trace w @ [LoadDefaultConfigCall region,
                 Api (SetRepositoryPolicy (if isRegistryPublic registry then Public else Private)
                        repo policy)]\<rparr>)
       \<and> uploadLifeCyclePolicy x region repo policy w =
           (backend x (trace w @ [LoadDefaultConfigCall region])
              (PutLifecyclePolicy Private repo policy),
            w\<lparr>trace := trace w @ [LoadDefaultConfigCall region,
                 Api (PutLifecyclePolicy Private repo policy)]\<rparr>)"
  using assms
  by (simp add: uploadRepositoryPolicy_def uploadLifeCyclePolicy_def config_LoadDefaultConfig_def
        svc_def record_event_def)

theorem policy_upload_backend_witness:
  "uploadRepositoryPolicy example_externals ''us-east-1'' ''app'' ''public.ecr.aws/myorg''
     ''policy statements'' example_world =
     (None, example_world
        \<lparr>trace := [LoadDefaultConfigCall ''us-east-1'',
                   Api (SetRepositoryPolicy Public ''app'' ''policy statements'')]\<rparr>)
   \<and> uploadLifeCyclePolicy example_externals ''us-east-1'' ''app'' ''lifecycle rules''
       example_world =
     (None, example_world
        \<lparr>trace := [LoadDefaultConfigCall ''us-east-1'',
                   Api (PutLifecyclePolicy Private ''app'' ''lifecycle rules'')]\<rparr>)"
  using policy_upload_backend
          [of example_externals "''us-east-1''" "''app''" "''public.ecr.aws/myorg''"
              "''policy statements''" example_world]
        policy_upload_backend
          [of example_externals "''us-east-1''" "''app''" "''public.ecr.aws/myorg''"
              "''lifecycle rules''" example_world]
  by (simp add: example_defs isRegistryPublic_def strings_HasPrefix_def ecrPublicDomain_def)

theorem lifecycle_policy_backend_counterexample:
  "c_String dry_run_context ''registry'' = ''public.ecr.aws/myorg''
   \<and> isRegistryPublic ''public.ecr.aws/myorg''
   \<and> trace (snd (run example_externals dry_run_context example_world)) =
       [WriteFileCall ''/kaniko/.docker/config.json''
          ''https://index.docker.io/v1/ auth octocat:hunter2; '',
        ReadFileCall ''lifecycle.json'',
        LoadDefaultConfigCall ''us-east-1'',
        Api (PutLifecyclePolicy Private ''app'' ''lifecycle rules''),
        Exec (ecr_plugin dry_run_context)]"
  by (simp add: run_eval)

section \<open>Auth setup of the GCR plugin\<close>

text \<open>
  Claim C10. In the GCR plugin the auth setup runs exactly when the JSON key is not
  empty, whatever the no-push flag says. With an empty key the run only invokes the
  build executor: no file is written and no environment variable is set. With a
  non-empty key the key is written to the key file and, when that write succeeds, the
  credentials variable is set to the path of the key file.
\<close>

theorem gcr_auth_setup:
  "trace (snd (gcr_run x c w)) = trace w @
      (if c_String c ''json-key'' = '''' then [Exec (gcr_plugin c)]
       else if writefile_error x gcrKeyPath \<noteq> None then
         [WriteFileCall gcrKeyPath (c_String c ''json-key'')]
       else if setenv_error x gcrEnvVariable gcrKeyPath \<noteq> None then
         [WriteFileCall gcrKeyPath (c_String c ''json-key''), SetenvCall gcrEnvVariable gcrKeyPath]
       else [WriteFileCall gcrKeyPath (c_String c ''json-key''),
             SetenvCall gcrEnvVariable gcrKeyPath, Exec (gcr_plugin c)])
   \<and> files (snd (gcr_run x c w)) =
       (if c_String c ''json-key'' \<noteq> '''' \<and> writefile_error x gcrKeyPath = None
        then (files w)(gcrKeyPath \<mapsto> c_String c ''json-key'') else files w)
   \<and> environ (snd (gcr_run x c w)) =
       (if c_String c ''json-key'' \<noteq> '''' \<and> writefile_error x gcrKeyPath = None
           \<and> setenv_error x gcrEnvVariable gcrKeyPath = None
        then (environ w)(gcrEnvVariable \<mapsto> gcrKeyPath) else environ w)
   \<and> files (snd (gcr_run x (c\<lparr>c_Bool := (c_Bool c)(''no-push'' := b)\<rparr>) w)) =
       files (snd (gcr_run x c w))
   \<and> environ (snd (gcr_run x (c\<lparr>c_Bool := (c_Bool c)(''no-push'' := b)\<rparr>) w)) =
       environ (snd (gcr_run x c w))"
  by (auto simp: gcr_run_def setupGCRAuth_def ioutil_WriteFile_def os_Setenv_def plugin_Exec_def
        record_event_def Let_def split: option.splits)

theorem gcr_auth_setup_witness:
  "c_Bool (gcr_context ''service-account-key'') ''no-push''
   \<and> files (snd (gcr_run example_externals (gcr_context ''service-account-key'') example_world))
       ''/kaniko/config.json'' = Some ''service-account-key''
   \<and> environ (snd (gcr_run example_externals (gcr_context ''service-account-key'') example_world))
       ''GOOGLE_APPLICATION_CREDENTIALS'' = Some ''/kaniko/config.json''
   \<and> snd (gcr_run example_externals (gcr_context '''') example_world) =
       example_world\<lparr>trace := [Exec (gcr_plugin (gcr_context ''''))]\<rparr>"
  using gcr_auth_setup
          [of example_externals "gcr_context ''service-account-key''" example_world False]
        gcr_auth_setup [of example_externals "gcr_context ''''" example_world False]
  by (simp add: example_defs gcrKeyPath_def gcrEnvVariable_def gcr_run_def plugin_Exec_def
        record_event_def)


end
